theory Spec2Isabelle
  imports Main "HOL-Library.Word"
begin

unbundle bit_operations_syntax

section \<open>Bytes and the host's object representation\<close>

text \<open>
  \<^verbatim>\<open>connection.cpp\<close> reads and writes the bytes of integers through
  \<^verbatim>\<open>reinterpret_cast\<close>, so what it puts on the wire depends on the byte order of the
  host. The byte order is a parameter of the model.
\<close>

type_synonym byte = "8 word"

datatype endian = LittleEndian | BigEndian

text \<open>\<^verbatim>\<open>reinterpret_cast<const uint8_t *>(&x)[i]\<close> for a \<^verbatim>\<open>uint16_t x\<close>, \<open>i\<close> being 0 or 1.\<close>

definition u16_byte :: "endian \<Rightarrow> 16 word \<Rightarrow> nat \<Rightarrow> byte" where
  "u16_byte host x i =
     (case host of
        LittleEndian \<Rightarrow> (if i = 0 then ucast x else ucast (drop_bit 8 x))
      | BigEndian \<Rightarrow> (if i = 0 then ucast (drop_bit 8 x) else ucast x))"

text \<open>\<^verbatim>\<open>reinterpret_cast<uint16_t *>(&size)[i]\<close> for a \<^verbatim>\<open>uint32_t size\<close>, \<open>i\<close> being 0 or 1.\<close>

definition u32_half :: "endian \<Rightarrow> 32 word \<Rightarrow> nat \<Rightarrow> 16 word" where
  "u32_half host x i =
     (case host of
        LittleEndian \<Rightarrow> (if i = 0 then ucast x else ucast (drop_bit 16 x))
      | BigEndian \<Rightarrow> (if i = 0 then ucast (drop_bit 16 x) else ucast x))"

text \<open>\<^verbatim>\<open>*reinterpret_cast<uint16_t *>(&r[0])\<close>: the two bytes \<open>b0\<close>, \<open>b1\<close> at the start of
  the buffer, read as one \<^verbatim>\<open>uint16_t\<close> of the host.\<close>

definition load_u16 :: "endian \<Rightarrow> byte \<Rightarrow> byte \<Rightarrow> 16 word" where
  "load_u16 host b0 b1 =
     (case host of
        LittleEndian \<Rightarrow> ucast b0 OR push_bit 8 (ucast b1)
      | BigEndian \<Rightarrow> ucast b1 OR push_bit 8 (ucast b0))"

text \<open>The two bytes of a 16-bit value exchanged.\<close>

definition swap_bytes :: "16 word \<Rightarrow> 16 word" where
  "swap_bytes x = push_bit 8 x OR drop_bit 8 x"

text \<open>\<^verbatim>\<open>std::vector<uint8_t>::resize\<close>: cut, or fill up with zero bytes.\<close>

definition resize :: "nat \<Rightarrow> byte list \<Rightarrow> byte list" where
  "resize n xs = take n xs @ replicate (n - length xs) 0"

section \<open>Exceptions and outcomes\<close>

text \<open>The codes of \<^verbatim>\<open>MB::utils\<close> that the connection throws.\<close>

datatype error_code = ProtocolError | ConnectionClosed | Timeout | InvalidMessageID

text \<open>\<^verbatim>\<open>MB::ModbusException\<close> is built from a code, or from the raw bytes of a payload
  (\<^verbatim>\<open>MB::ModbusException(r)\<close>; how the bytes are decoded belongs to the PDU codec).\<close>

datatype modbus_exception = ErrorCode error_code | FromRaw "byte list"

text \<open>What a receive operation does: it returns, it throws, or it leaves the bounds of
  the receive buffer (undefined behaviour in C++).\<close>

datatype 'a outcome = Returned 'a | Thrown modbus_exception | OutOfBounds

section \<open>The socket and the calls made on it\<close>

text \<open>
  What the peer and the operating system do next, one event per underlying read:
  \<^item> \<open>PollExpired\<close>: the wait for readability ends with nothing to read (\<^verbatim>\<open>poll\<close> returns 0);
  \<^item> \<open>PollError\<close>: \<^verbatim>\<open>poll\<close> returns -1;
  \<^item> \<open>Readable bs\<close>: the bytes \<open>bs\<close> are there to be read; one \<^verbatim>\<open>recv\<close> takes as many of
    them as its buffer holds and leaves the others;
  \<^item> \<open>PeerClosed\<close>: the peer closed the stream, \<^verbatim>\<open>recv\<close> returns 0;
  \<^item> \<open>RecvError\<close>: \<^verbatim>\<open>recv\<close> returns -1.
\<close>

datatype event = PollExpired | PollError | Readable "byte list" | PeerClosed | RecvError

text \<open>The calls that leave the connection, in the order they are made: the system calls
  with their arguments, and the calls into the PDU codec with the bytes handed over.\<close>

datatype call =
    Poll int int
  | Recv int nat
  | Send int "byte list"
  | Close int
  | ExceptionExist "byte list"
  | ExceptionFromRaw "byte list"
  | RequestFromRaw "byte list"
  | ResponseFromRaw "byte list"

record world =
  inbound :: "event list"
  calls :: "call list"

definition record_call :: "call \<Rightarrow> world \<Rightarrow> world" where
  "record_call c w = w\<lparr>calls := calls w @ [c]\<rparr>"

fun poll_ev :: "event list \<Rightarrow> int \<times> event list" where
  "poll_ev [] = (0, [])"
| "poll_ev (PollExpired # es) = (0, es)"
| "poll_ev (PollError # es) = (- 1, es)"
| "poll_ev (e # es) = (1, e # es)"

text \<open>\<^verbatim>\<open>::poll(&_pfd, 1, tmo)\<close> on the descriptor \<open>fd\<close>. Whether the wait expires is the
  environment's choice; the window asked for is kept in the call.\<close>

definition poll_sys :: "int \<Rightarrow> int \<Rightarrow> world \<Rightarrow> int \<times> world" where
  "poll_sys fd tmo w =
     (let (p, es) = poll_ev (inbound w)
      in (p, record_call (Poll fd tmo) (w\<lparr>inbound := es\<rparr>)))"

text \<open>One \<^verbatim>\<open>recv\<close> into a zero-filled buffer of \<open>n\<close> bytes: the value returned, the buffer
  afterwards, and what is left to read. The connection calls it only after \<^verbatim>\<open>poll\<close> has
  reported the socket readable; on a socket with nothing to read the model returns -1.\<close>

fun recv_ev :: "nat \<Rightarrow> event list \<Rightarrow> int \<times> byte list \<times> event list" where
  "recv_ev n (Readable bs # es) =
     (int (length (take n bs)),
      take n bs @ replicate (n - length (take n bs)) 0,
      if length bs \<le> n then es else Readable (drop n bs) # es)"
| "recv_ev n (PeerClosed # es) = (0, replicate n 0, PeerClosed # es)"
| "recv_ev n (RecvError # es) = (- 1, replicate n 0, es)"
| "recv_ev n es = (- 1, replicate n 0, es)"

definition recv_sys :: "int \<Rightarrow> nat \<Rightarrow> world \<Rightarrow> int \<times> byte list \<times> world" where
  "recv_sys fd n w =
     (let (size, buf, es) = recv_ev n (inbound w)
      in (size, buf, record_call (Recv fd n) (w\<lparr>inbound := es\<rparr>)))"

text \<open>\<^verbatim>\<open>::send\<close>; the connection ignores what it returns.\<close>

definition send_sys :: "int \<Rightarrow> byte list \<Rightarrow> world \<Rightarrow> world" where
  "send_sys fd bs w = record_call (Send fd bs) w"

section \<open>The connection\<close>

text \<open>The fields of \<^verbatim>\<open>MB::TCP::Connection\<close>.\<close>

record connection =
  sockfd :: int
  messageID :: "16 word"
  timeout :: int

text \<open>The default member initialisers of the class: \<^verbatim>\<open>_sockfd = -1\<close>,
  \<^verbatim>\<open>_messageID = 0\<close>, \<^verbatim>\<open>_timeout = DefaultTCPTimeout\<close> (500).\<close>

definition default_connection :: connection where
  "default_connection = \<lparr>sockfd = - 1, messageID = 0, timeout = 500\<rparr>"

text \<open>\<^verbatim>\<open>Connection::Connection(const int sockfd)\<close>.\<close>

definition Connection :: "int \<Rightarrow> connection" where
  "Connection fd = default_connection\<lparr>sockfd := fd, messageID := 0\<rparr>"

text \<open>\<^verbatim>\<open>Connection::setMessageId\<close>, the only way the caller changes the stored id.\<close>

definition setMessageId :: "16 word \<Rightarrow> connection \<Rightarrow> connection" where
  "setMessageId messageId c = c\<lparr>messageID := messageId\<rparr>"

text \<open>\<^verbatim>\<open>Connection::closeSockfd\<close>: closes a descriptor that is not negative and
  leaves -1 in the field.\<close>

definition closeSockfd :: "connection \<Rightarrow> world \<Rightarrow> connection \<times> world" where
  "closeSockfd c w =
     (c\<lparr>sockfd := - 1\<rparr>,
      if 0 \<le> sockfd c then record_call (Close (sockfd c)) w else w)"

subsection \<open>Sending\<close>

text \<open>The three send operations have the same body; \<open>toRaw\<close> is the PDU codec's
  serialiser of the message sent. Each returns the frame, the connection as it leaves it,
  and the world with the \<^verbatim>\<open>send\<close> made.\<close>

definition sendRequest ::
  "endian \<Rightarrow> ('req \<Rightarrow> byte list) \<Rightarrow> connection \<Rightarrow> 'req \<Rightarrow> world
     \<Rightarrow> byte list \<times> connection \<times> world" where
  "sendRequest host toRaw c req w =
     (let dat = toRaw req;
          size = (of_nat (length dat) :: 32 word);
          rawReq =
            [u16_byte host (messageID c) 1, u16_byte host (messageID c) 0, 0, 0,
             ucast (u32_half host size 1), ucast (u32_half host size 0)] @ dat
      in (rawReq, c, send_sys (sockfd c) rawReq w))"

definition sendResponse ::
  "endian \<Rightarrow> ('res \<Rightarrow> byte list) \<Rightarrow> connection \<Rightarrow> 'res \<Rightarrow> world
     \<Rightarrow> byte list \<times> connection \<times> world" where
  "sendResponse host toRaw c res w =
     (let dat = toRaw res;
          size = (of_nat (length dat) :: 32 word);
          rawReq =
            [u16_byte host (messageID c) 1, u16_byte host (messageID c) 0, 0, 0,
             ucast (u32_half host size 1), ucast (u32_half host size 0)] @ dat
      in (rawReq, c, send_sys (sockfd c) rawReq w))"

definition sendException ::
  "endian \<Rightarrow> ('ex \<Rightarrow> byte list) \<Rightarrow> connection \<Rightarrow> 'ex \<Rightarrow> world
     \<Rightarrow> byte list \<times> connection \<times> world" where
  "sendException host toRaw c ex w =
     (let dat = toRaw ex;
          size = (of_nat (length dat) :: 32 word);
          rawReq =
            [u16_byte host (messageID c) 1, u16_byte host (messageID c) 0, 0, 0,
             ucast (u32_half host size 1), ucast (u32_half host size 0)] @ dat
      in (rawReq, c, send_sys (sockfd c) rawReq w))"

subsection \<open>Receiving\<close>

text \<open>\<^verbatim>\<open>Connection::awaitRawMessage\<close>: one wait of 60 * 1000 ms, one read into a buffer
  of 1024 bytes.\<close>

definition awaitRawMessage :: "connection \<Rightarrow> world \<Rightarrow> byte list outcome \<times> world" where
  "awaitRawMessage c w =
     (let (p, w1) = poll_sys (sockfd c) (60 * 1000) w in
      if p \<le> 0 then (Thrown (ErrorCode ConnectionClosed), w1)
      else
        let (size, buf, w2) = recv_sys (sockfd c) 1024 w1 in
        if size = - 1 then (Thrown (ErrorCode ProtocolError), w2)
        else if size = 0 then (Thrown (ErrorCode ConnectionClosed), w2)
        else (Returned (resize (nat size) buf), w2))"

text \<open>What \<^verbatim>\<open>Connection::awaitRequest\<close> does with the vector \<open>r\<close> once it holds the
  bytes read (from \<^verbatim>\<open>const auto resultMessageID = ...\<close> to the end). \<open>fromRaw\<close> is
  \<^verbatim>\<open>MB::ModbusRequest::fromRaw\<close>. Reading the \<^verbatim>\<open>uint16_t\<close> at \<^verbatim>\<open>&r[0]\<close> needs two bytes
  in the vector and \<^verbatim>\<open>r.erase(r.begin(), r.begin() + 6)\<close> needs six; with fewer the
  operation leaves the bounds of the vector.\<close>

definition awaitRequest_header ::
  "endian \<Rightarrow> (byte list \<Rightarrow> 'req outcome) \<Rightarrow> connection \<Rightarrow> byte list \<Rightarrow> world
     \<Rightarrow> 'req outcome \<times> connection \<times> world" where
  "awaitRequest_header host fromRaw c r w =
     (if length r < 2 then (OutOfBounds, c, w)
      else
        let resultMessageID = load_u16 host (r ! 0) (r ! 1);
            c' = c\<lparr>messageID := resultMessageID\<rparr>
        in
          if length r < 6 then (OutOfBounds, c', w)
          else
            let r' = drop 6 r
            in (fromRaw r', c', record_call (RequestFromRaw r') w))"

text \<open>\<^verbatim>\<open>Connection::awaitRequest\<close>: one wait of 60 * 1000 ms, one read into a buffer of
  1024 bytes, then the header handling.\<close>

definition awaitRequest ::
  "endian \<Rightarrow> (byte list \<Rightarrow> 'req outcome) \<Rightarrow> connection \<Rightarrow> world
     \<Rightarrow> 'req outcome \<times> connection \<times> world" where
  "awaitRequest host fromRaw c w =
     (let (p, w1) = poll_sys (sockfd c) (60 * 1000) w in
      if p \<le> 0 then (Thrown (ErrorCode Timeout), c, w1)
      else
        let (size, buf, w2) = recv_sys (sockfd c) 1024 w1 in
        if size = - 1 then (Thrown (ErrorCode ProtocolError), c, w2)
        else if size = 0 then (Thrown (ErrorCode ConnectionClosed), c, w2)
        else awaitRequest_header host fromRaw c (resize (nat size) buf) w2)"

text \<open>What \<^verbatim>\<open>Connection::awaitResponse\<close> does with the vector \<open>r\<close> once it holds the
  bytes read. \<open>exist\<close> is \<^verbatim>\<open>MB::ModbusException::exist\<close> and \<open>fromRaw\<close> is
  \<^verbatim>\<open>MB::ModbusResponse::fromRaw\<close>.\<close>

definition awaitResponse_header ::
  "endian \<Rightarrow> (byte list \<Rightarrow> bool) \<Rightarrow> (byte list \<Rightarrow> 'res outcome) \<Rightarrow> connection
     \<Rightarrow> byte list \<Rightarrow> world \<Rightarrow> 'res outcome \<times> world" where
  "awaitResponse_header host exist fromRaw c r w =
     (if length r < 2 then (OutOfBounds, w)
      else
        let resultMessageID = load_u16 host (r ! 0) (r ! 1) in
        if resultMessageID \<noteq> messageID c
        then (Thrown (ErrorCode InvalidMessageID), w)
        else if length r < 6 then (OutOfBounds, w)
        else
          let r' = drop 6 r;
              w' = record_call (ExceptionExist r') w
          in
            if exist r' then (Thrown (FromRaw r'), record_call (ExceptionFromRaw r') w')
            else (fromRaw r', record_call (ResponseFromRaw r') w'))"

text \<open>\<^verbatim>\<open>Connection::awaitResponse\<close>: one wait of \<^verbatim>\<open>_timeout\<close> ms, one read into a buffer
  of 1024 bytes, then the header handling.\<close>

definition awaitResponse ::
  "endian \<Rightarrow> (byte list \<Rightarrow> bool) \<Rightarrow> (byte list \<Rightarrow> 'res outcome) \<Rightarrow> connection \<Rightarrow> world
     \<Rightarrow> 'res outcome \<times> world" where
  "awaitResponse host exist fromRaw c w =
     (let (p, w1) = poll_sys (sockfd c) (timeout c) w in
      if p \<le> 0 then (Thrown (ErrorCode Timeout), w1)
      else
        let (size, buf, w2) = recv_sys (sockfd c) 1024 w1 in
        if size = - 1 then (Thrown (ErrorCode ProtocolError), w2)
        else if size = 0 then (Thrown (ErrorCode ConnectionClosed), w2)
        else awaitResponse_header host exist fromRaw c (resize (nat size) buf) w2)"

subsection \<open>Ownership of the socket\<close>

text \<open>
  Moves involve two objects and \<^verbatim>\<open>operator=\<close> compares their addresses, so the
  connections live in a store: a list of objects, an object's address being its index.
  A reference in C++ names an object that exists; the addresses given to the operations
  below are addresses of the store.
\<close>

type_synonym store = "connection list"

text \<open>\<^verbatim>\<open>Connection::operator=(Connection &&other)\<close>.\<close>

definition move_assign :: "nat \<Rightarrow> nat \<Rightarrow> store \<Rightarrow> world \<Rightarrow> store \<times> world" where
  "move_assign this other s w =
     (if this = other then (s, w)
      else
        let (t, w') =
              (if sockfd (s ! this) \<noteq> - 1 \<and> sockfd (s ! this) \<noteq> sockfd (s ! other)
               then closeSockfd (s ! this) w
               else (s ! this, w));
            t' = t\<lparr>sockfd := sockfd (s ! other), messageID := messageID (s ! other)\<rparr>;
            other' = (s ! other)\<lparr>sockfd := - 1\<rparr>
        in (s[this := t', other := other'], w'))"

text \<open>\<^verbatim>\<open>Connection::Connection(Connection &&moved)\<close>: the new object starts from the
  default member initialisers and is put at the end of the store.\<close>

definition move_construct :: "nat \<Rightarrow> store \<Rightarrow> world \<Rightarrow> store \<times> world" where
  "move_construct moved s w =
     (let this = default_connection;
          (t, w') =
              (if sockfd this \<noteq> - 1 \<and> sockfd (s ! moved) \<noteq> sockfd this
               then closeSockfd this w
               else (this, w));
          t' = t\<lparr>sockfd := sockfd (s ! moved), messageID := messageID (s ! moved)\<rparr>;
          moved' = (s ! moved)\<lparr>sockfd := - 1\<rparr>
      in (s[moved := moved'] @ [t'], w'))"

text \<open>\<^verbatim>\<open>Connection::~Connection\<close>, on the object at address \<open>this\<close>.\<close>

definition destroy :: "nat \<Rightarrow> store \<Rightarrow> world \<Rightarrow> store \<times> world" where
  "destroy this s w =
     (let (t, w') = closeSockfd (s ! this) w in (s[this := t], w'))"

text \<open>The handles that connections of the store hold open, one entry per holder: no
  handle has two owners when the list has no repetition.\<close>

definition live_handles :: "store \<Rightarrow> int list" where
  "live_handles s = filter (\<lambda>fd. 0 \<le> fd) (map sockfd s)"

definition sole_owners :: "store \<Rightarrow> bool" where
  "sole_owners s = distinct (live_handles s)"


text \<open>What one read of at most \<open>n\<close> bytes leaves to be read.\<close>

definition pending :: "nat \<Rightarrow> byte list \<Rightarrow> event list \<Rightarrow> event list" where
  "pending n bs es = (if length bs \<le> n then es else Readable (drop n bs) # es)"

section \<open>Framing\<close>

text \<open>
  C5, as the code has it. On a little-endian host, sending the PDU bytes 01 02 on a
  connection whose stored transaction id is 5 produces the frame 00 05 00 00 00 02 01 02
  (the id 5 big-endian, protocol id 0, length 2, the payload), and these are the bytes
  given to \<^verbatim>\<open>send\<close>.
\<close>

theorem sendRequest_wire_example:
  "sendRequest LittleEndian (\<lambda>req. [0x01, 0x02]) (setMessageId 5 (Connection fd)) req
     \<lparr>inbound = es, calls = cs\<rparr> =
   ([0x00, 0x05, 0x00, 0x00, 0x00, 0x02, 0x01, 0x02],
    setMessageId 5 (Connection fd),
    \<lparr>inbound = es,
     calls = cs @ [Send fd [0x00, 0x05, 0x00, 0x00, 0x00, 0x02, 0x01, 0x02]]\<rparr>)"
  by (simp add: sendRequest_def setMessageId_def Connection_def default_connection_def
      u16_byte_def u32_half_def send_sys_def record_call_def Let_def)

text \<open>The same call on a big-endian host: the bytes of the id and of the length come
  out the other way round, and the frame is not the one above.\<close>

theorem sendRequest_big_endian_counterexample:
  "sendRequest BigEndian (\<lambda>req. [0x01, 0x02]) (setMessageId 5 (Connection 3)) ()
     \<lparr>inbound = [], calls = []\<rparr> =
   ([0x05, 0x00, 0x00, 0x00, 0x02, 0x00, 0x01, 0x02],
    setMessageId 5 (Connection 3),
    \<lparr>inbound = [],
     calls = [Send 3 [0x05, 0x00, 0x00, 0x00, 0x02, 0x00, 0x01, 0x02]]\<rparr>) \<and>
   [0x05, 0x00, 0x00, 0x00, 0x02, 0x00, 0x01, 0x02] \<noteq>
     [0x00, 0x05, 0x00, 0x00, 0x00, 0x02, 0x01, 0x02 :: byte]"
  by (simp add: sendRequest_def setMessageId_def Connection_def default_connection_def
      u16_byte_def u32_half_def send_sys_def record_call_def Let_def)

section \<open>One wait and one read\<close>

text \<open>Each receive operation on a socket with bytes to read: the wait, the single
  read of at most 1024 bytes, and then the header handling on the bytes of that read.\<close>

lemma resize_recv: "resize (length xs) (xs @ ys) = xs"
  by (simp add: resize_def)

lemma poll_sys_readable:
  "poll_sys fd tmo \<lparr>inbound = Readable bs # es, calls = cs\<rparr> =
     (1, \<lparr>inbound = Readable bs # es, calls = cs @ [Poll fd tmo]\<rparr>)"
  by (simp add: poll_sys_def record_call_def)

lemma recv_sys_readable:
  "recv_sys fd n \<lparr>inbound = Readable bs # es, calls = cs\<rparr> =
     (int (length (take n bs)), take n bs @ replicate (n - length (take n bs)) 0,
      \<lparr>inbound = pending n bs es, calls = cs @ [Recv fd n]\<rparr>)"
  by (simp add: recv_sys_def record_call_def pending_def)

lemma awaitResponse_readable:
  "bs \<noteq> [] \<Longrightarrow>
   awaitResponse host exist fromRaw c \<lparr>inbound = Readable bs # es, calls = cs\<rparr> =
     awaitResponse_header host exist fromRaw c (take 1024 bs)
       \<lparr>inbound = pending 1024 bs es,
        calls = cs @ [Poll (sockfd c) (timeout c), Recv (sockfd c) 1024]\<rparr>"
  by (simp add: awaitResponse_def poll_sys_readable recv_sys_readable resize_recv
      del: length_take)

lemma awaitResponse_readable_empty:
  "awaitResponse host exist fromRaw c \<lparr>inbound = Readable [] # es, calls = cs\<rparr> =
     (Thrown (ErrorCode ConnectionClosed),
       \<lparr>inbound = es,
        calls = cs @ [Poll (sockfd c) (timeout c), Recv (sockfd c) 1024]\<rparr>)"
  by (simp add: awaitResponse_def poll_sys_readable recv_sys_readable pending_def)

lemma awaitRequest_readable:
  "bs \<noteq> [] \<Longrightarrow>
   awaitRequest host fromRaw c \<lparr>inbound = Readable bs # es, calls = cs\<rparr> =
     awaitRequest_header host fromRaw c (take 1024 bs)
       \<lparr>inbound = pending 1024 bs es,
        calls = cs @ [Poll (sockfd c) 60000, Recv (sockfd c) 1024]\<rparr>"
  by (simp add: awaitRequest_def poll_sys_readable recv_sys_readable resize_recv
      del: length_take)


lemma awaitRequest_readable_empty:
  "awaitRequest host fromRaw c \<lparr>inbound = Readable [] # es, calls = cs\<rparr> =
     (Thrown (ErrorCode ConnectionClosed), c,
       \<lparr>inbound = es,
        calls = cs @ [Poll (sockfd c) 60000, Recv (sockfd c) 1024]\<rparr>)"
  by (simp add: awaitRequest_def poll_sys_readable recv_sys_readable pending_def)

lemma awaitRawMessage_readable_empty:
  "awaitRawMessage c \<lparr>inbound = Readable [] # es, calls = cs\<rparr> =
     (Thrown (ErrorCode ConnectionClosed),
       \<lparr>inbound = es,
        calls = cs @ [Poll (sockfd c) 60000, Recv (sockfd c) 1024]\<rparr>)"
  by (simp add: awaitRawMessage_def poll_sys_readable recv_sys_readable pending_def)

section \<open>Classification of receive failures\<close>

lemma poll_sys_expired:
  "poll_sys fd tmo \<lparr>inbound = PollExpired # es, calls = cs\<rparr> =
     (0, \<lparr>inbound = es, calls = cs @ [Poll fd tmo]\<rparr>)"
  by (simp add: poll_sys_def record_call_def)

lemma poll_sys_closed:
  "poll_sys fd tmo \<lparr>inbound = PeerClosed # es, calls = cs\<rparr> =
     (1, \<lparr>inbound = PeerClosed # es, calls = cs @ [Poll fd tmo]\<rparr>)"
  by (simp add: poll_sys_def record_call_def)

lemma poll_sys_recv_error:
  "poll_sys fd tmo \<lparr>inbound = RecvError # es, calls = cs\<rparr> =
     (1, \<lparr>inbound = RecvError # es, calls = cs @ [Poll fd tmo]\<rparr>)"
  by (simp add: poll_sys_def record_call_def)

lemma recv_sys_closed:
  "recv_sys fd n \<lparr>inbound = PeerClosed # es, calls = cs\<rparr> =
     (0, replicate n 0, \<lparr>inbound = PeerClosed # es, calls = cs @ [Recv fd n]\<rparr>)"
  by (simp add: recv_sys_def record_call_def)

lemma recv_sys_error:
  "recv_sys fd n \<lparr>inbound = RecvError # es, calls = cs\<rparr> =
     (- 1, replicate n 0, \<lparr>inbound = es, calls = cs @ [Recv fd n]\<rparr>)"
  by (simp add: recv_sys_def record_call_def)

lemma awaitRequest_expired:
  "awaitRequest host fromRaw c \<lparr>inbound = PollExpired # es, calls = cs\<rparr> =
     (Thrown (ErrorCode Timeout), c,
      \<lparr>inbound = es, calls = cs @ [Poll (sockfd c) 60000]\<rparr>)"
  by (simp add: awaitRequest_def poll_sys_expired)

lemma awaitResponse_expired:
  "awaitResponse host exist fromRaw c \<lparr>inbound = PollExpired # es, calls = cs\<rparr> =
     (Thrown (ErrorCode Timeout),
      \<lparr>inbound = es, calls = cs @ [Poll (sockfd c) (timeout c)]\<rparr>)"
  by (simp add: awaitResponse_def poll_sys_expired)

lemma awaitRawMessage_expired:
  "awaitRawMessage c \<lparr>inbound = PollExpired # es, calls = cs\<rparr> =
     (Thrown (ErrorCode ConnectionClosed),
      \<lparr>inbound = es, calls = cs @ [Poll (sockfd c) 60000]\<rparr>)"
  by (simp add: awaitRawMessage_def poll_sys_expired)

lemma awaitRequest_closed:
  "awaitRequest host fromRaw c \<lparr>inbound = PeerClosed # es, calls = cs\<rparr> =
     (Thrown (ErrorCode ConnectionClosed), c,
      \<lparr>inbound = PeerClosed # es,
       calls = cs @ [Poll (sockfd c) 60000, Recv (sockfd c) 1024]\<rparr>)"
  by (simp add: awaitRequest_def poll_sys_closed recv_sys_closed)

lemma awaitResponse_closed:
  "awaitResponse host exist fromRaw c \<lparr>inbound = PeerClosed # es, calls = cs\<rparr> =
     (Thrown (ErrorCode ConnectionClosed),
      \<lparr>inbound = PeerClosed # es,
       calls = cs @ [Poll (sockfd c) (timeout c), Recv (sockfd c) 1024]\<rparr>)"
  by (simp add: awaitResponse_def poll_sys_closed recv_sys_closed)

lemma awaitRawMessage_closed:
  "awaitRawMessage c \<lparr>inbound = PeerClosed # es, calls = cs\<rparr> =
     (Thrown (ErrorCode ConnectionClosed),
      \<lparr>inbound = PeerClosed # es,
       calls = cs @ [Poll (sockfd c) 60000, Recv (sockfd c) 1024]\<rparr>)"
  by (simp add: awaitRawMessage_def poll_sys_closed recv_sys_closed)

lemma awaitRequest_recv_error:
  "awaitRequest host fromRaw c \<lparr>inbound = RecvError # es, calls = cs\<rparr> =
     (Thrown (ErrorCode ProtocolError), c,
      \<lparr>inbound = es, calls = cs @ [Poll (sockfd c) 60000, Recv (sockfd c) 1024]\<rparr>)"
  by (simp add: awaitRequest_def poll_sys_recv_error recv_sys_error)

lemma awaitResponse_recv_error:
  "awaitResponse host exist fromRaw c \<lparr>inbound = RecvError # es, calls = cs\<rparr> =
     (Thrown (ErrorCode ProtocolError),
      \<lparr>inbound = es,
       calls = cs @ [Poll (sockfd c) (timeout c), Recv (sockfd c) 1024]\<rparr>)"
  by (simp add: awaitResponse_def poll_sys_recv_error recv_sys_error)

lemma awaitRawMessage_recv_error:
  "awaitRawMessage c \<lparr>inbound = RecvError # es, calls = cs\<rparr> =
     (Thrown (ErrorCode ProtocolError),
      \<lparr>inbound = es, calls = cs @ [Poll (sockfd c) 60000, Recv (sockfd c) 1024]\<rparr>)"
  by (simp add: awaitRawMessage_def poll_sys_recv_error recv_sys_error)

text \<open>A failed \<^verbatim>\<open>poll\<close> and a socket on which nothing more happens are handled as an
  expired wait: the operations test \<^verbatim>\<open>poll(...) <= 0\<close>.\<close>

lemma wait_failure_classification:
  "fst (awaitRequest host reqFromRaw c \<lparr>inbound = PollError # es, calls = cs\<rparr>) =
     Thrown (ErrorCode Timeout)"
  "fst (awaitResponse host exist resFromRaw c \<lparr>inbound = PollError # es, calls = cs\<rparr>) =
     Thrown (ErrorCode Timeout)"
  "fst (awaitRawMessage c \<lparr>inbound = PollError # es, calls = cs\<rparr>) =
     Thrown (ErrorCode ConnectionClosed)"
  "fst (awaitRequest host reqFromRaw c \<lparr>inbound = [], calls = cs\<rparr>) =
     Thrown (ErrorCode Timeout)"
  "fst (awaitResponse host exist resFromRaw c \<lparr>inbound = [], calls = cs\<rparr>) =
     Thrown (ErrorCode Timeout)"
  "fst (awaitRawMessage c \<lparr>inbound = [], calls = cs\<rparr>) =
     Thrown (ErrorCode ConnectionClosed)"
  by (simp_all add: awaitRequest_def awaitResponse_def awaitRawMessage_def poll_sys_def)

text \<open>
  C7. When the wait for readability expires, \<open>awaitRequest\<close> (which waits 60 * 1000 ms)
  and \<open>awaitResponse\<close> (which waits the connection's \<open>timeout\<close>) throw Timeout, and
  \<open>awaitRawMessage\<close> (60 * 1000 ms) throws ConnectionClosed. In all three a read of
  zero bytes throws ConnectionClosed and a failed read throws ProtocolError. The calls
  made show the window each operation asks \<^verbatim>\<open>poll\<close> for and the one read of 1024 bytes.
\<close>

theorem receive_failure_classification:
  "awaitRequest host reqFromRaw c \<lparr>inbound = PollExpired # es, calls = cs\<rparr> =
     (Thrown (ErrorCode Timeout), c,
      \<lparr>inbound = es, calls = cs @ [Poll (sockfd c) (60 * 1000)]\<rparr>) \<and>
   awaitResponse host exist resFromRaw c \<lparr>inbound = PollExpired # es, calls = cs\<rparr> =
     (Thrown (ErrorCode Timeout),
      \<lparr>inbound = es, calls = cs @ [Poll (sockfd c) (timeout c)]\<rparr>) \<and>
   awaitRawMessage c \<lparr>inbound = PollExpired # es, calls = cs\<rparr> =
     (Thrown (ErrorCode ConnectionClosed),
      \<lparr>inbound = es, calls = cs @ [Poll (sockfd c) (60 * 1000)]\<rparr>) \<and>
   fst (awaitRequest host reqFromRaw c \<lparr>inbound = PeerClosed # es, calls = cs\<rparr>) =
     Thrown (ErrorCode ConnectionClosed) \<and>
   fst (awaitResponse host exist resFromRaw c \<lparr>inbound = PeerClosed # es, calls = cs\<rparr>) =
     Thrown (ErrorCode ConnectionClosed) \<and>
   fst (awaitRawMessage c \<lparr>inbound = PeerClosed # es, calls = cs\<rparr>) =
     Thrown (ErrorCode ConnectionClosed) \<and>
   fst (awaitRequest host reqFromRaw c \<lparr>inbound = Readable [] # es, calls = cs\<rparr>) =
     Thrown (ErrorCode ConnectionClosed) \<and>
   fst (awaitResponse host exist resFromRaw c \<lparr>inbound = Readable [] # es, calls = cs\<rparr>) =
     Thrown (ErrorCode ConnectionClosed) \<and>
   fst (awaitRawMessage c \<lparr>inbound = Readable [] # es, calls = cs\<rparr>) =
     Thrown (ErrorCode ConnectionClosed) \<and>
   fst (awaitRequest host reqFromRaw c \<lparr>inbound = RecvError # es, calls = cs\<rparr>) =
     Thrown (ErrorCode ProtocolError) \<and>
   fst (awaitResponse host exist resFromRaw c \<lparr>inbound = RecvError # es, calls = cs\<rparr>) =
     Thrown (ErrorCode ProtocolError) \<and>
   fst (awaitRawMessage c \<lparr>inbound = RecvError # es, calls = cs\<rparr>) =
     Thrown (ErrorCode ProtocolError)"
  by (simp add: awaitRequest_expired awaitResponse_expired awaitRawMessage_expired
      awaitRequest_closed awaitResponse_closed awaitRawMessage_closed
      awaitRequest_recv_error awaitResponse_recv_error awaitRawMessage_recv_error
      awaitRequest_readable_empty awaitResponse_readable_empty awaitRawMessage_readable_empty)

section \<open>Header handling\<close>

lemma awaitResponse_header_cases:
  "awaitResponse_header host exist fromRaw c r \<lparr>inbound = es, calls = cs\<rparr> =
     (if length r < 2 then (OutOfBounds, \<lparr>inbound = es, calls = cs\<rparr>)
      else if load_u16 host (r ! 0) (r ! 1) \<noteq> messageID c
      then (Thrown (ErrorCode InvalidMessageID), \<lparr>inbound = es, calls = cs\<rparr>)
      else if length r < 6 then (OutOfBounds, \<lparr>inbound = es, calls = cs\<rparr>)
      else if exist (drop 6 r)
      then (Thrown (FromRaw (drop 6 r)),
            \<lparr>inbound = es,
             calls = cs @ [ExceptionExist (drop 6 r), ExceptionFromRaw (drop 6 r)]\<rparr>)
      else (fromRaw (drop 6 r),
            \<lparr>inbound = es,
             calls = cs @ [ExceptionExist (drop 6 r), ResponseFromRaw (drop 6 r)]\<rparr>))"
  by (simp add: awaitResponse_header_def record_call_def Let_def)

lemma awaitRequest_header_cases:
  "awaitRequest_header host fromRaw c r \<lparr>inbound = es, calls = cs\<rparr> =
     (if length r < 2 then (OutOfBounds, c, \<lparr>inbound = es, calls = cs\<rparr>)
      else if length r < 6
      then (OutOfBounds, c\<lparr>messageID := load_u16 host (r ! 0) (r ! 1)\<rparr>,
            \<lparr>inbound = es, calls = cs\<rparr>)
      else (fromRaw (drop 6 r), c\<lparr>messageID := load_u16 host (r ! 0) (r ! 1)\<rparr>,
            \<lparr>inbound = es, calls = cs @ [RequestFromRaw (drop 6 r)]\<rparr>))"
  by (simp add: awaitRequest_header_def record_call_def Let_def)

text \<open>An id whose two bytes are equal reads the same on either host.\<close>

lemma load_u16_equal_bytes: "load_u16 host b b = ucast b OR push_bit 8 (ucast b)"
  by (cases host) (simp_all add: load_u16_def)

text \<open>
  C4, as the code has it. Take a read that delivers at least 6 bytes and in which the
  exception detector recognises the bytes after the sixth (the bytes of this one read,
  at most 1024 of them with the header). When the comparison that \<open>awaitResponse\<close>
  makes between the id it reads from the first two bytes and the stored id passes, it
  throws the exception built from these bytes; when the comparison fails it throws
  InvalidMessageID. In neither case does it return a response: the response decoder
  \<open>fromRaw\<close> is not called, whatever it would return for these bytes, and the only calls
  into the codec are the detector and the exception's constructor. When the first two
  bytes are the same byte and the stored id consists of this byte twice (the default id 0
  is of this kind), the comparison passes on either host and the exception is thrown.
\<close>

theorem exception_precedence:
  assumes "6 \<le> length bs"
    and "exist (drop 6 (take 1024 bs))"
  shows "awaitResponse host exist fromRaw c \<lparr>inbound = Readable bs # es, calls = cs\<rparr> =
     (if load_u16 host (bs ! 0) (bs ! 1) = messageID c
      then (Thrown (FromRaw (drop 6 (take 1024 bs))),
            \<lparr>inbound = pending 1024 bs es,
             calls = cs @ [Poll (sockfd c) (timeout c), Recv (sockfd c) 1024,
                           ExceptionExist (drop 6 (take 1024 bs)),
                           ExceptionFromRaw (drop 6 (take 1024 bs))]\<rparr>)
      else (Thrown (ErrorCode InvalidMessageID),
            \<lparr>inbound = pending 1024 bs es,
             calls = cs @ [Poll (sockfd c) (timeout c), Recv (sockfd c) 1024]\<rparr>)) \<and>
     (bs ! 1 = bs ! 0 \<and> messageID c = ucast (bs ! 0) OR push_bit 8 (ucast (bs ! 0)) \<longrightarrow>
      awaitResponse host exist fromRaw c \<lparr>inbound = Readable bs # es, calls = cs\<rparr> =
        (Thrown (FromRaw (drop 6 (take 1024 bs))),
         \<lparr>inbound = pending 1024 bs es,
          calls = cs @ [Poll (sockfd c) (timeout c), Recv (sockfd c) 1024,
                        ExceptionExist (drop 6 (take 1024 bs)),
                        ExceptionFromRaw (drop 6 (take 1024 bs))]\<rparr>))"
proof -
  from assms(1) have ne: "bs \<noteq> []" by auto
  from assms(1) have len: "\<not> length (take 1024 bs) < 6" "\<not> length (take 1024 bs) < 2"
    by simp_all
  from assms(1) have id: "take 1024 bs ! 0 = bs ! 0" "take 1024 bs ! 1 = bs ! 1"
    by simp_all
  have general:
    "awaitResponse host exist fromRaw c \<lparr>inbound = Readable bs # es, calls = cs\<rparr> =
     (if load_u16 host (bs ! 0) (bs ! 1) = messageID c
      then (Thrown (FromRaw (drop 6 (take 1024 bs))),
            \<lparr>inbound = pending 1024 bs es,
             calls = cs @ [Poll (sockfd c) (timeout c), Recv (sockfd c) 1024,
                           ExceptionExist (drop 6 (take 1024 bs)),
                           ExceptionFromRaw (drop 6 (take 1024 bs))]\<rparr>)
      else (Thrown (ErrorCode InvalidMessageID),
            \<lparr>inbound = pending 1024 bs es,
             calls = cs @ [Poll (sockfd c) (timeout c), Recv (sockfd c) 1024]\<rparr>))"
    unfolding awaitResponse_readable [OF ne] awaitResponse_header_cases id
    using len assms(2) by (simp del: length_take)
  have equal: "load_u16 host (bs ! 0) (bs ! 1) = messageID c"
    if "bs ! 1 = bs ! 0" and "messageID c = ucast (bs ! 0) OR push_bit 8 (ucast (bs ! 0))"
    using that load_u16_equal_bytes [of host "bs ! 0"] by simp
  from general equal show ?thesis by simp
qed

theorem exception_precedence_witness:
  "6 \<le> length [0x07, 0x07, 0x00, 0x00, 0x00, 0x02, 0x81, 0x02 :: byte] \<and>
   (\<lambda>p. p = [0x81, 0x02 :: byte])
     (drop 6 (take 1024 [0x07, 0x07, 0x00, 0x00, 0x00, 0x02, 0x81, 0x02])) \<and>
   [0x07, 0x07, 0x00, 0x00, 0x00, 0x02, 0x81, 0x02 :: byte] ! 1 =
     [0x07, 0x07, 0x00, 0x00, 0x00, 0x02, 0x81, 0x02] ! 0 \<and>
   messageID (setMessageId 0x0707 (Connection 3)) =
     ucast ([0x07, 0x07, 0x00, 0x00, 0x00, 0x02, 0x81, 0x02 :: byte] ! 0) OR
     push_bit 8 (ucast ([0x07, 0x07, 0x00, 0x00, 0x00, 0x02, 0x81, 0x02 :: byte] ! 0)) \<and>
   awaitResponse LittleEndian (\<lambda>p. p = [0x81, 0x02]) Returned
     (setMessageId 0x0707 (Connection 3))
     \<lparr>inbound = [Readable [0x07, 0x07, 0x00, 0x00, 0x00, 0x02, 0x81, 0x02]], calls = []\<rparr> =
     (Thrown (FromRaw [0x81, 0x02]),
      \<lparr>inbound = [],
       calls = [Poll 3 500, Recv 3 1024, ExceptionExist [0x81, 0x02],
                ExceptionFromRaw [0x81, 0x02]]\<rparr>) \<and>
   awaitResponse BigEndian (\<lambda>p. p = [0x81, 0x02]) Returned
     (setMessageId 0x0707 (Connection 3))
     \<lparr>inbound = [Readable [0x07, 0x07, 0x00, 0x00, 0x00, 0x02, 0x81, 0x02]], calls = []\<rparr> =
     (Thrown (FromRaw [0x81, 0x02]),
      \<lparr>inbound = [],
       calls = [Poll 3 500, Recv 3 1024, ExceptionExist [0x81, 0x02],
                ExceptionFromRaw [0x81, 0x02]]\<rparr>) \<and>
   awaitResponse LittleEndian (\<lambda>p. p = [0x81, 0x02]) Returned (setMessageId 9 (Connection 3))
     \<lparr>inbound = [Readable [0x07, 0x07, 0x00, 0x00, 0x00, 0x02, 0x81, 0x02]], calls = []\<rparr> =
     (Thrown (ErrorCode InvalidMessageID),
      \<lparr>inbound = [], calls = [Poll 3 500, Recv 3 1024]\<rparr>)"
proof -
  have h1: "6 \<le> length [0x07, 0x07, 0x00, 0x00, 0x00, 0x02, 0x81, 0x02 :: byte]"
    by simp
  have h2: "(\<lambda>p. p = [0x81, 0x02 :: byte])
     (drop 6 (take 1024 [0x07, 0x07, 0x00, 0x00, 0x00, 0x02, 0x81, 0x02]))"
    by simp
  show ?thesis
    using h1 h2
      exception_precedence [where exist = "\<lambda>p. p = [0x81, 0x02]"
        and bs = "[0x07, 0x07, 0x00, 0x00, 0x00, 0x02, 0x81, 0x02]" and host = LittleEndian
        and fromRaw = Returned and c = "setMessageId 0x0707 (Connection 3)" and es = "[]"
        and cs = "[]", OF h1 h2]
      exception_precedence [where exist = "\<lambda>p. p = [0x81, 0x02]"
        and bs = "[0x07, 0x07, 0x00, 0x00, 0x00, 0x02, 0x81, 0x02]" and host = BigEndian
        and fromRaw = Returned and c = "setMessageId 0x0707 (Connection 3)" and es = "[]"
        and cs = "[]", OF h1 h2]
      exception_precedence [where exist = "\<lambda>p. p = [0x81, 0x02]"
        and bs = "[0x07, 0x07, 0x00, 0x00, 0x00, 0x02, 0x81, 0x02]" and host = LittleEndian
        and fromRaw = Returned and c = "setMessageId 9 (Connection 3)" and es = "[]"
        and cs = "[]", OF h1 h2]
    by (simp add: pending_def load_u16_def setMessageId_def Connection_def
        default_connection_def)
qed

text \<open>Two frames at which the claim as given fails, both with a detector that takes a
  payload whose second byte has its top bit set, and a response decoder that takes any
  bytes. The frame 00 00 00 00 00 03 01 83 02 carries the stored id 0 and an exception
  payload; it arrives as 7 bytes and then 2, and \<open>awaitResponse\<close> returns the response
  decoded from the one payload byte of the first read. On a little-endian host the frame
  00 05 00 00 00 03 01 83 02 carries the id 5 that the connection stores; it is thrown
  out with InvalidMessageID.\<close>

theorem exception_precedence_counterexample:
  "(\<lambda>p. 2 \<le> length p \<and> 0x80 \<le> p ! 1) [0x01, 0x83, 0x02 :: byte] \<and>
   awaitResponse LittleEndian (\<lambda>p. 2 \<le> length p \<and> 0x80 \<le> p ! 1) Returned (Connection 3)
     \<lparr>inbound = [Readable [0x00, 0x00, 0x00, 0x00, 0x00, 0x03, 0x01], Readable [0x83, 0x02]],
      calls = []\<rparr> =
     (Returned [0x01],
      \<lparr>inbound = [Readable [0x83, 0x02]],
       calls = [Poll 3 500, Recv 3 1024, ExceptionExist [0x01], ResponseFromRaw [0x01]]\<rparr>) \<and>
   fst (sendResponse LittleEndian (\<lambda>res. res) (setMessageId 5 (Connection 4))
          [0x01, 0x83, 0x02] \<lparr>inbound = [], calls = []\<rparr>) =
     [0x00, 0x05, 0x00, 0x00, 0x00, 0x03, 0x01, 0x83, 0x02] \<and>
   awaitResponse LittleEndian (\<lambda>p. 2 \<le> length p \<and> 0x80 \<le> p ! 1) Returned
     (setMessageId 5 (Connection 3))
     \<lparr>inbound = [Readable [0x00, 0x05, 0x00, 0x00, 0x00, 0x03, 0x01, 0x83, 0x02]],
      calls = []\<rparr> =
     (Thrown (ErrorCode InvalidMessageID),
      \<lparr>inbound = [], calls = [Poll 3 500, Recv 3 1024]\<rparr>)"
  by (simp add: awaitResponse_readable awaitResponse_header_cases pending_def load_u16_def
      sendResponse_def u16_byte_def u32_half_def Let_def
      setMessageId_def Connection_def default_connection_def)

lemma awaitResponse_result:
  assumes "bs \<noteq> []"
  shows "fst (awaitResponse host exist fromRaw c \<lparr>inbound = Readable bs # es, calls = cs\<rparr>) =
     (if length bs < 2 then OutOfBounds
      else if load_u16 host (bs ! 0) (bs ! 1) \<noteq> messageID c
      then Thrown (ErrorCode InvalidMessageID)
      else if length bs < 6 then OutOfBounds
      else if exist (drop 6 (take 1024 bs)) then Thrown (FromRaw (drop 6 (take 1024 bs)))
      else fromRaw (drop 6 (take 1024 bs)))"
  unfolding awaitResponse_readable [OF assms] awaitResponse_header_cases
  by (simp add: min_less_iff_disj)

lemma awaitRequest_result:
  assumes "bs \<noteq> []"
  shows "fst (awaitRequest host fromRaw c \<lparr>inbound = Readable bs # es, calls = cs\<rparr>) =
     (if length bs < 6 then OutOfBounds else fromRaw (drop 6 (take 1024 bs)))"
  unfolding awaitRequest_readable [OF assms] awaitRequest_header_cases
  by (simp add: min_less_iff_disj)

text \<open>
  C10, as the code has it. Of a received sequence of 1 to 5 bytes, \<open>awaitRequest\<close>
  always leaves the bounds of the receive buffer. \<open>awaitResponse\<close> leaves them when one
  byte was received, and when 2 to 5 bytes were received and the id read from the first
  two equals the stored id; when that id differs it throws InvalidMessageID before the
  erase and stays in bounds. Neither operation checks that 6 bytes were received.
\<close>

theorem short_read_bounds:
  assumes "1 \<le> length bs" and "length bs \<le> 5"
  shows "fst (awaitRequest host reqFromRaw c \<lparr>inbound = Readable bs # es, calls = cs\<rparr>) =
       OutOfBounds \<and>
     fst (awaitResponse host exist resFromRaw c \<lparr>inbound = Readable bs # es, calls = cs\<rparr>) =
       (if length bs = 1 then OutOfBounds
        else if load_u16 host (bs ! 0) (bs ! 1) = messageID c then OutOfBounds
        else Thrown (ErrorCode InvalidMessageID))"
proof -
  from assms(1) have ne: "bs \<noteq> []" by auto
  show ?thesis
    using assms by (simp add: awaitRequest_result [OF ne] awaitResponse_result [OF ne])
qed

theorem short_read_bounds_witness:
  "1 \<le> length [0x07, 0x00, 0x00 :: byte] \<and> length [0x07, 0x00, 0x00 :: byte] \<le> 5 \<and>
   fst (awaitRequest LittleEndian Returned (Connection 3)
          \<lparr>inbound = [Readable [0x07, 0x00, 0x00]], calls = []\<rparr>) = OutOfBounds \<and>
   fst (awaitResponse LittleEndian (\<lambda>p. False) Returned (setMessageId 7 (Connection 3))
          \<lparr>inbound = [Readable [0x07, 0x00, 0x00]], calls = []\<rparr>) = OutOfBounds \<and>
   fst (awaitResponse LittleEndian (\<lambda>p. False) Returned (setMessageId 8 (Connection 3))
          \<lparr>inbound = [Readable [0x07, 0x00, 0x00]], calls = []\<rparr>) =
     Thrown (ErrorCode InvalidMessageID)"
proof -
  have h1: "1 \<le> length [0x07, 0x00, 0x00 :: byte]" by simp
  have h2: "length [0x07, 0x00, 0x00 :: byte] \<le> 5" by simp
  show ?thesis
    using h1 h2
      short_read_bounds [OF h1 h2, of LittleEndian Returned "Connection 3" "[]" "[]"
        "\<lambda>p. False" Returned]
      short_read_bounds [OF h1 h2, of LittleEndian Returned "setMessageId 7 (Connection 3)"
        "[]" "[]" "\<lambda>p. False" Returned]
      short_read_bounds [OF h1 h2, of LittleEndian Returned "setMessageId 8 (Connection 3)"
        "[]" "[]" "\<lambda>p. False" Returned]
    by (simp add: load_u16_def setMessageId_def Connection_def default_connection_def)
qed

theorem short_read_in_bounds_counterexample:
  "length [0x01, 0x00, 0x00 :: byte] = 3 \<and>
   awaitResponse LittleEndian (\<lambda>p. False) Returned (Connection 3)
     \<lparr>inbound = [Readable [0x01, 0x00, 0x00]], calls = []\<rparr> =
   (Thrown (ErrorCode InvalidMessageID),
    \<lparr>inbound = [], calls = [Poll 3 500, Recv 3 1024]\<rparr>) \<and>
   fst (awaitResponse LittleEndian (\<lambda>p. False) Returned (Connection 3)
     \<lparr>inbound = [Readable [0x01, 0x00, 0x00]], calls = []\<rparr>) \<noteq> OutOfBounds"
  by (simp add: awaitResponse_readable awaitResponse_header_cases pending_def load_u16_def
      Connection_def default_connection_def)

text \<open>
  C1, as the code has it. Neither \<open>awaitResponse\<close> nor \<open>awaitRequest\<close> looks at the
  protocol-id bytes or at the length field. Of a frame of at most 1024 bytes that one read
  delivers, the bytes after the sixth go to the PDU codec whatever the bytes \<open>b2\<close>,
  \<open>b3\<close> (protocol id) and \<open>b4\<close>, \<open>b5\<close> (length) are: in \<open>awaitResponse\<close> when the
  first two bytes read as the stored id, in \<open>awaitRequest\<close> always.
\<close>

theorem header_fields_not_validated:
  assumes "length p + 6 \<le> 1024"
  shows "awaitResponse host exist resFromRaw (c\<lparr>messageID := load_u16 host i0 i1\<rparr>)
       \<lparr>inbound = Readable ([i0, i1, b2, b3, b4, b5] @ p) # es, calls = cs\<rparr> =
     (if exist p then Thrown (FromRaw p) else resFromRaw p,
      \<lparr>inbound = es,
       calls = cs @ [Poll (sockfd c) (timeout c), Recv (sockfd c) 1024, ExceptionExist p,
                     if exist p then ExceptionFromRaw p else ResponseFromRaw p]\<rparr>) \<and>
     awaitRequest host reqFromRaw c
       \<lparr>inbound = Readable ([i0, i1, b2, b3, b4, b5] @ p) # es, calls = cs\<rparr> =
     (reqFromRaw p, c\<lparr>messageID := load_u16 host i0 i1\<rparr>,
      \<lparr>inbound = es,
       calls = cs @ [Poll (sockfd c) (60 * 1000), Recv (sockfd c) 1024, RequestFromRaw p]\<rparr>)"
proof -
  let ?bs = "[i0, i1, b2, b3, b4, b5] @ p"
  have ne: "?bs \<noteq> []" by simp
  from assms have all: "take 1024 ?bs = ?bs" by simp
  from assms have pend: "pending 1024 ?bs es = es" by (simp add: pending_def)
  have res: "awaitResponse host exist resFromRaw (c\<lparr>messageID := load_u16 host i0 i1\<rparr>)
       \<lparr>inbound = Readable ?bs # es, calls = cs\<rparr> =
     (if exist p then Thrown (FromRaw p) else resFromRaw p,
      \<lparr>inbound = es,
       calls = cs @ [Poll (sockfd c) (timeout c), Recv (sockfd c) 1024, ExceptionExist p,
                     if exist p then ExceptionFromRaw p else ResponseFromRaw p]\<rparr>)"
    unfolding awaitResponse_readable [OF ne] all pend awaitResponse_header_cases
    by simp
  have req: "awaitRequest host reqFromRaw c \<lparr>inbound = Readable ?bs # es, calls = cs\<rparr> =
     (reqFromRaw p, c\<lparr>messageID := load_u16 host i0 i1\<rparr>,
      \<lparr>inbound = es,
       calls = cs @ [Poll (sockfd c) (60 * 1000), Recv (sockfd c) 1024, RequestFromRaw p]\<rparr>)"
    unfolding awaitRequest_readable [OF ne] all pend awaitRequest_header_cases
    by simp
  from res req show ?thesis by blast
qed

theorem header_fields_not_validated_witness:
  "length [0x03 :: byte] + 6 \<le> 1024 \<and>
   awaitResponse LittleEndian (\<lambda>p. False) Returned
       ((Connection 3)\<lparr>messageID := load_u16 LittleEndian 0x00 0x00\<rparr>)
       \<lparr>inbound = [Readable ([0x00, 0x00, 0xAB, 0xCD, 0x00, 0x09] @ [0x03])], calls = []\<rparr> =
     (Returned [0x03],
      \<lparr>inbound = [],
       calls = [Poll 3 500, Recv 3 1024, ExceptionExist [0x03], ResponseFromRaw [0x03]]\<rparr>) \<and>
   awaitRequest LittleEndian Returned (Connection 3)
       \<lparr>inbound = [Readable ([0x00, 0x00, 0xAB, 0xCD, 0x00, 0x09] @ [0x03])], calls = []\<rparr> =
     (Returned [0x03], (Connection 3)\<lparr>messageID := load_u16 LittleEndian 0x00 0x00\<rparr>,
      \<lparr>inbound = [],
       calls = [Poll 3 (60 * 1000), Recv 3 1024, RequestFromRaw [0x03]]\<rparr>)"
proof -
  have h: "length [0x03 :: byte] + 6 \<le> 1024" by simp
  show ?thesis
    using h
      header_fields_not_validated [OF h, where host = LittleEndian and exist = "\<lambda>p. False"
        and resFromRaw = Returned and reqFromRaw = Returned and c = "Connection 3"
        and ?i0.0 = "0x00" and ?i1.0 = "0x00" and ?b2.0 = "0xAB" and ?b3.0 = "0xCD"
        and ?b4.0 = "0x00" and ?b5.0 = "0x09" and es = "[]" and cs = "[]"]
    by (simp add: Connection_def default_connection_def)
qed

theorem header_validation_counterexample:
  "fst (awaitResponse LittleEndian (\<lambda>p. False) Returned (Connection 3)
     \<lparr>inbound = [Readable [0x00, 0x00, 0xAB, 0xCD, 0x00, 0x01, 0x03]], calls = []\<rparr>) =
     Returned [0x03] \<and>
   fst (awaitResponse LittleEndian (\<lambda>p. False) Returned (Connection 3)
     \<lparr>inbound = [Readable [0x00, 0x00, 0x00, 0x00, 0x00, 0x09, 0x03]], calls = []\<rparr>) =
     Returned [0x03] \<and>
   fst (awaitRequest LittleEndian Returned (Connection 3)
     \<lparr>inbound = [Readable [0x00, 0x00, 0xAB, 0xCD, 0x00, 0x01, 0x03]], calls = []\<rparr>) =
     Returned [0x03] \<and>
   fst (awaitRequest LittleEndian Returned (Connection 3)
     \<lparr>inbound = [Readable [0x00, 0x00, 0x00, 0x00, 0x00, 0x09, 0x03]], calls = []\<rparr>) =
     Returned [0x03] \<and>
   Returned [0x03 :: byte] \<noteq> Thrown (ErrorCode ProtocolError)"
  by (simp add: awaitResponse_readable awaitResponse_header_cases awaitRequest_readable
      awaitRequest_header_cases pending_def load_u16_def Connection_def default_connection_def)

section \<open>The byte order of the transaction id\<close>

text \<open>Read in the order they were written, the two bytes of an id give the id back;
  \<open>awaitResponse\<close> and \<open>awaitRequest\<close> read the bytes at offsets 0 and 1 of a frame in
  this order, the send operations write them in the other one.\<close>

lemma load_u16_same_order: "load_u16 host (u16_byte host x 0) (u16_byte host x 1) = x"
  apply (cases host)
   apply (simp_all add: load_u16_def u16_byte_def)
   apply (rule bit_word_eqI; auto simp: bit_simps)+
  done

lemma load_u16_sent_order:
  "load_u16 host (u16_byte host x 1) (u16_byte host x 0) = swap_bytes x"
  apply (cases host)
   apply (simp_all add: load_u16_def u16_byte_def swap_bytes_def)
   apply (rule bit_word_eqI; auto simp: bit_simps dest: bit_imp_le_length)+
  done

lemma sendResponse_frame:
  "fst (sendResponse host toRaw c res w) =
     [u16_byte host (messageID c) 1, u16_byte host (messageID c) 0, 0, 0,
      ucast (u32_half host (of_nat (length (toRaw res))) 1),
      ucast (u32_half host (of_nat (length (toRaw res))) 0)] @ toRaw res"
  by (simp add: sendResponse_def Let_def)

lemma sendRequest_frame:
  "fst (sendRequest host toRaw c req w) =
     [u16_byte host (messageID c) 1, u16_byte host (messageID c) 0, 0, 0,
      ucast (u32_half host (of_nat (length (toRaw req))) 1),
      ucast (u32_half host (of_nat (length (toRaw req))) 0)] @ toRaw req"
  by (simp add: sendRequest_def Let_def)

lemma sendException_frame:
  "fst (sendException host toRaw c ex w) =
     [u16_byte host (messageID c) 1, u16_byte host (messageID c) 0, 0, 0,
      ucast (u32_half host (of_nat (length (toRaw ex))) 1),
      ucast (u32_half host (of_nat (length (toRaw ex))) 0)] @ toRaw ex"
  by (simp add: sendException_def Let_def)

text \<open>On either host: a frame that a connection with stored id \<open>x\<close> sends is taken by
  \<open>awaitResponse\<close> on a connection with stored id \<open>y\<close> exactly when \<open>y\<close> is \<open>x\<close>
  with its bytes exchanged.\<close>

lemma sent_frame_accepted_iff:
  assumes "length (toRaw res) + 6 \<le> 1024"
  shows "fst (awaitResponse host exist fromRaw c
            \<lparr>inbound = Readable (fst (sendResponse host toRaw c' res w)) # es, calls = cs\<rparr>) =
           Thrown (ErrorCode InvalidMessageID) \<longleftrightarrow>
         (swap_bytes (messageID c') \<noteq> messageID c \<or>
          \<not> exist (toRaw res) \<and> fromRaw (toRaw res) = Thrown (ErrorCode InvalidMessageID))"
proof -
  let ?bs = "fst (sendResponse host toRaw c' res w)"
  have ne: "?bs \<noteq> []" by (simp add: sendResponse_frame)
  from assms have all: "take 1024 ?bs = ?bs" by (simp add: sendResponse_frame)
  have p: "drop 6 ?bs = toRaw res" by (simp add: sendResponse_frame)
  have len: "\<not> length ?bs < 2" "\<not> length ?bs < 6" by (simp_all add: sendResponse_frame)
  have id: "load_u16 host (?bs ! 0) (?bs ! 1) = swap_bytes (messageID c')"
    using load_u16_sent_order [of host "messageID c'"] by (simp add: sendResponse_frame)
  show ?thesis
    unfolding awaitResponse_readable [OF ne] all awaitResponse_header_cases
    using len id by (auto simp add: p)
qed

text \<open>
  C3 at the failing input, on a little-endian host. The frame 05 00 00 00 00 01 03
  carries the transaction id 0x0500 (it is the frame \<open>sendResponse\<close> emits for the stored
  id 0x0500). A connection whose last request went out with the stored id 5 takes it:
  the payload goes through the exception detector and the response decoder. The frame
  00 05 00 00 00 01 03, which carries the id 5, is the one thrown out with
  InvalidMessageID.
\<close>

theorem awaitResponse_compares_swapped_id:
  "fst (sendResponse LittleEndian (\<lambda>res. res) (setMessageId 0x0500 (Connection 4)) [0x03]
          \<lparr>inbound = [], calls = []\<rparr>) = [0x05, 0x00, 0x00, 0x00, 0x00, 0x01, 0x03] \<and>
   awaitResponse LittleEndian (\<lambda>p. False) Returned (setMessageId 5 (Connection 3))
     \<lparr>inbound = [Readable [0x05, 0x00, 0x00, 0x00, 0x00, 0x01, 0x03]], calls = []\<rparr> =
     (Returned [0x03],
      \<lparr>inbound = [],
       calls = [Poll 3 500, Recv 3 1024, ExceptionExist [0x03], ResponseFromRaw [0x03]]\<rparr>) \<and>
   fst (sendRequest LittleEndian (\<lambda>req. req) (setMessageId 5 (Connection 3)) [0x03]
          \<lparr>inbound = [], calls = []\<rparr>) = [0x00, 0x05, 0x00, 0x00, 0x00, 0x01, 0x03] \<and>
   awaitResponse LittleEndian (\<lambda>p. False) Returned (setMessageId 5 (Connection 3))
     \<lparr>inbound = [Readable [0x00, 0x05, 0x00, 0x00, 0x00, 0x01, 0x03]], calls = []\<rparr> =
     (Thrown (ErrorCode InvalidMessageID),
      \<lparr>inbound = [], calls = [Poll 3 500, Recv 3 1024]\<rparr>)"
  by (simp add: sendResponse_frame sendRequest_frame awaitResponse_readable
      awaitResponse_header_cases pending_def load_u16_def u16_byte_def u32_half_def
      setMessageId_def Connection_def default_connection_def)

text \<open>
  C6, as the code has it. \<open>sendRequest\<close> allocates no transaction id: it frames the
  payload with the id the connection holds and leaves the connection as it was. The
  first two bytes of the frame are the two bytes of that id, and a second \<open>sendRequest\<close>
  on the connection the first one returns starts its frame with the same two bytes. The
  stored id changes through \<open>setMessageId\<close> (and \<open>awaitRequest\<close>) only.
\<close>

theorem sendRequest_keeps_id:
  "fst (snd (sendRequest host toRaw c req w)) = c \<and>
   take 2 (fst (sendRequest host toRaw c req w)) =
     [u16_byte host (messageID c) 1, u16_byte host (messageID c) 0] \<and>
   take 2 (fst (sendRequest host toRaw (fst (snd (sendRequest host toRaw c req w))) req'
                  (snd (snd (sendRequest host toRaw c req w))))) =
     take 2 (fst (sendRequest host toRaw c req w)) \<and>
   messageID (setMessageId x c) = x"
  by (simp add: sendRequest_def Let_def setMessageId_def)

theorem sendRequest_next_id_counterexample:
  "take 2 (fst (sendRequest LittleEndian (\<lambda>req. req) (Connection 3) [0x01, 0x02]
                  \<lparr>inbound = [], calls = []\<rparr>)) = [0x00, 0x00] \<and>
   take 2 (fst (sendRequest LittleEndian (\<lambda>req. req)
                  (fst (snd (sendRequest LittleEndian (\<lambda>req. req) (Connection 3) [0x01, 0x02]
                               \<lparr>inbound = [], calls = []\<rparr>)))
                  [0x01, 0x02]
                  (snd (snd (sendRequest LittleEndian (\<lambda>req. req) (Connection 3) [0x01, 0x02]
                               \<lparr>inbound = [], calls = []\<rparr>))))) = [0x00, 0x00] \<and>
   messageID (fst (snd (sendRequest LittleEndian (\<lambda>req. req) (Connection 3) [0x01, 0x02]
                               \<lparr>inbound = [], calls = []\<rparr>))) = 0"
  by (simp add: sendRequest_def Let_def u16_byte_def Connection_def default_connection_def)

section \<open>The length field\<close>

text \<open>On a little-endian host the two bytes written at offsets 4 and 5 are the low
  bytes of the two 16-bit halves of the 32-bit size: bits 16 to 23 and bits 0 to 7 of
  the byte count. Bits 8 to 15 are not written.\<close>

lemma length_bytes_little_endian:
  "ucast (u32_half LittleEndian sz (Suc 0)) = (ucast (drop_bit 16 sz) :: byte)"
  "ucast (u32_half LittleEndian sz 0) = (ucast sz :: byte)"
  by (simp_all add: u32_half_def) (rule bit_word_eqI; auto simp: bit_simps)+

lemma small_size_high_byte:
  assumes "n \<le> 255"
  shows "(ucast (drop_bit 16 (of_nat n :: 32 word)) :: byte) = 0"
proof -
  from assms have "unat (of_nat n :: 32 word) = n"
    by (simp add: unat_of_nat)
  then have "unat (drop_bit 16 (of_nat n :: 32 word)) = drop_bit 16 n"
    by (simp only: unat_drop_bit_eq)
  also from assms have "\<dots> = 0"
    by (simp add: drop_bit_eq_div)
  finally have "drop_bit 16 (of_nat n :: 32 word) = 0"
    by (simp add: unat_eq_0)
  then show ?thesis by simp
qed

lemma small_size_low_byte:
  "(ucast (of_nat n :: 32 word) :: byte) = of_nat n"
  by (rule bit_word_eqI) (auto simp: bit_simps)

text \<open>Up to 255 bytes of payload the two bytes are the big-endian byte count.\<close>

lemma short_payload_length_field:
  assumes "length (toRaw req) \<le> 255"
  shows "fst (sendRequest LittleEndian toRaw c req w) =
     [u16_byte LittleEndian (messageID c) 1, u16_byte LittleEndian (messageID c) 0, 0, 0,
      0, of_nat (length (toRaw req))] @ toRaw req"
  using assms
  by (simp add: sendRequest_frame length_bytes_little_endian small_size_high_byte
      small_size_low_byte)

text \<open>
  C2 at the failing input, on a little-endian host. For a payload of 256 bytes each of
  the three send operations writes 00 00 at offsets 4 and 5 of the frame; the big-endian
  byte count would be 01 00.
\<close>

theorem length_field_at_256:
  "length (replicate 256 (0x00 :: byte)) = 256 \<and>
   take 2 (drop 4 (fst (sendRequest LittleEndian (\<lambda>req. replicate 256 0x00) c req w))) =
     [0x00, 0x00] \<and>
   take 2 (drop 4 (fst (sendResponse LittleEndian (\<lambda>res. replicate 256 0x00) c res w))) =
     [0x00, 0x00] \<and>
   take 2 (drop 4 (fst (sendException LittleEndian (\<lambda>ex. replicate 256 0x00) c ex w))) =
     [0x00, 0x00]"
  by (simp add: sendRequest_frame sendResponse_frame sendException_frame u32_half_def)

section \<open>One read per receive operation\<close>



section \<open>Ownership of the handle\<close>

lemma distinct_filter_nth:
  "distinct (filter P xs) \<longleftrightarrow>
     (\<forall>i<length xs. \<forall>j<length xs. i \<noteq> j \<longrightarrow> P (xs ! i) \<longrightarrow> xs ! i \<noteq> xs ! j)"
proof (induction xs)
  case Nil
  then show ?case by simp
next
  case (Cons x xs)
  show ?case
  proof
    assume d: "distinct (filter P (x # xs))"
    then have d': "distinct (filter P xs)" by (simp split: if_splits)
    from d have fresh: "P x \<Longrightarrow> x \<notin> set (filter P xs)" by simp
    show "\<forall>i<length (x # xs). \<forall>j<length (x # xs).
            i \<noteq> j \<longrightarrow> P ((x # xs) ! i) \<longrightarrow> (x # xs) ! i \<noteq> (x # xs) ! j"
    proof (intro allI impI)
      fix i j
      assume ij: "i < length (x # xs)" "j < length (x # xs)" "i \<noteq> j" "P ((x # xs) ! i)"
      show "(x # xs) ! i \<noteq> (x # xs) ! j"
      proof (cases i)
        case 0
        with ij obtain j' where j': "j = Suc j'" "j' < length xs" by (cases j) auto
        from 0 ij have "P x" by simp
        with fresh have "x \<notin> set (filter P xs)" by simp
        with \<open>P x\<close> have "x \<notin> set xs" by simp
        with j' have "xs ! j' \<noteq> x" by (metis nth_mem)
        with 0 j' show ?thesis by simp
      next
        case (Suc i')
        show ?thesis
        proof (cases j)
          case 0
          from Suc ij have "P (xs ! i')" "i' < length xs" by simp_all
          then have "xs ! i' \<in> set (filter P xs)" by simp
          with fresh have "xs ! i' = x \<Longrightarrow> False" using \<open>P (xs ! i')\<close> by auto
          with Suc 0 show ?thesis by auto
        next
          case (Suc j')
          with \<open>i = Suc i'\<close> ij Cons.IH d' show ?thesis by simp
        qed
      qed
    qed
  next
    assume r: "\<forall>i<length (x # xs). \<forall>j<length (x # xs).
            i \<noteq> j \<longrightarrow> P ((x # xs) ! i) \<longrightarrow> (x # xs) ! i \<noteq> (x # xs) ! j"
    have "\<forall>i<length xs. \<forall>j<length xs. i \<noteq> j \<longrightarrow> P (xs ! i) \<longrightarrow> xs ! i \<noteq> xs ! j"
    proof (intro allI impI)
      fix i j
      assume "i < length xs" "j < length xs" "i \<noteq> j" "P (xs ! i)"
      with r [rule_format, of "Suc i" "Suc j"] show "xs ! i \<noteq> xs ! j" by simp
    qed
    with Cons.IH have d': "distinct (filter P xs)" by simp
    have "x \<notin> set xs" if "P x"
    proof
      assume "x \<in> set xs"
      then obtain k where "k < length xs" "xs ! k = x" by (auto simp: in_set_conv_nth)
      with r [rule_format, of 0 "Suc k"] that show False by simp
    qed
    with d' show "distinct (filter P (x # xs))" by simp
  qed
qed

lemma sole_owners_iff:
  "sole_owners s \<longleftrightarrow>
     (\<forall>i<length s. \<forall>j<length s.
        i \<noteq> j \<longrightarrow> 0 \<le> sockfd (s ! i) \<longrightarrow> sockfd (s ! i) \<noteq> sockfd (s ! j))"
  by (simp add: sole_owners_def live_handles_def distinct_filter_nth)

lemma move_assign_store:
  assumes "this \<noteq> other"
  shows "fst (move_assign this other s w) =
     s[this := (s ! this)\<lparr>sockfd := sockfd (s ! other), messageID := messageID (s ! other)\<rparr>,
       other := (s ! other)\<lparr>sockfd := - 1\<rparr>]"
  using assms by (simp add: move_assign_def closeSockfd_def Let_def split_def)

lemma move_assign_calls:
  assumes "this \<noteq> other"
  shows "snd (move_assign this other s w) =
     w\<lparr>calls := calls w @
          (if 0 \<le> sockfd (s ! this) \<and> sockfd (s ! this) \<noteq> sockfd (s ! other)
           then [Close (sockfd (s ! this))] else [])\<rparr>"
  using assms by (auto simp: move_assign_def closeSockfd_def record_call_def Let_def)

lemma move_construct_store:
  "move_construct moved s w =
     (s[moved := (s ! moved)\<lparr>sockfd := - 1\<rparr>] @
        [\<lparr>sockfd = sockfd (s ! moved), messageID = messageID (s ! moved), timeout = 500\<rparr>],
      w)"
  by (simp add: move_construct_def default_connection_def Let_def)

lemma destroy_closed:
  assumes "this < length s" and "sockfd (s ! this) = - 1"
  shows "destroy this s w = (s, w)"
  using assms by (simp add: destroy_def closeSockfd_def list_update_same_conv)

lemma move_assign_sole_owners:
  assumes "this < length s" and "other < length s" and "this \<noteq> other"
    and "sole_owners s"
  shows "sole_owners (fst (move_assign this other s w))"
  unfolding move_assign_store [OF assms(3)] sole_owners_iff
proof (intro allI impI)
  let ?s' = "s[this := (s ! this)\<lparr>sockfd := sockfd (s ! other),
                   messageID := messageID (s ! other)\<rparr>,
               other := (s ! other)\<lparr>sockfd := - 1\<rparr>]"
  fix i j
  assume ij: "i < length ?s'" "j < length ?s'" "i \<noteq> j" "0 \<le> sockfd (?s' ! i)"
  from assms(4) have inv: "\<And>a b. a < length s \<Longrightarrow> b < length s \<Longrightarrow> a \<noteq> b \<Longrightarrow>
      0 \<le> sockfd (s ! a) \<Longrightarrow> sockfd (s ! a) \<noteq> sockfd (s ! b)"
    by (simp add: sole_owners_iff)
  from ij assms(1-3) inv [of i j] inv [of other j] inv [of i other]
  show "sockfd (?s' ! i) \<noteq> sockfd (?s' ! j)"
    by (auto simp: nth_list_update split: if_splits)
qed

lemma move_construct_sole_owners:
  assumes "moved < length s" and "sole_owners s"
  shows "sole_owners (fst (move_construct moved s w))"
  unfolding move_construct_store fst_conv sole_owners_iff
proof (intro allI impI)
  let ?s' = "s[moved := (s ! moved)\<lparr>sockfd := - 1\<rparr>] @
        [\<lparr>sockfd = sockfd (s ! moved), messageID = messageID (s ! moved), timeout = 500\<rparr>]"
  fix i j
  assume ij: "i < length ?s'" "j < length ?s'" "i \<noteq> j" "0 \<le> sockfd (?s' ! i)"
  from assms(2) have inv: "\<And>a b. a < length s \<Longrightarrow> b < length s \<Longrightarrow> a \<noteq> b \<Longrightarrow>
      0 \<le> sockfd (s ! a) \<Longrightarrow> sockfd (s ! a) \<noteq> sockfd (s ! b)"
    by (simp add: sole_owners_iff)
  from ij assms(1) inv [of i j] inv [of moved j] inv [of i moved]
  show "sockfd (?s' ! i) \<noteq> sockfd (?s' ! j)"
    by (auto simp: nth_list_update nth_append split: if_splits)
qed

lemma destroy_sole_owners:
  assumes "this < length s" and "sole_owners s"
  shows "sole_owners (fst (destroy this s w))"
proof -
  have st: "fst (destroy this s w) = s[this := (s ! this)\<lparr>sockfd := - 1\<rparr>]"
    by (simp add: destroy_def closeSockfd_def)
  from assms(2) have inv: "\<And>a b. a < length s \<Longrightarrow> b < length s \<Longrightarrow> a \<noteq> b \<Longrightarrow>
      0 \<le> sockfd (s ! a) \<Longrightarrow> sockfd (s ! a) \<noteq> sockfd (s ! b)"
    by (simp add: sole_owners_iff)
  show ?thesis
    unfolding st sole_owners_iff
  proof (intro allI impI)
    fix i j
    assume ij: "i < length (s[this := (s ! this)\<lparr>sockfd := - 1\<rparr>])"
      "j < length (s[this := (s ! this)\<lparr>sockfd := - 1\<rparr>])" "i \<noteq> j"
      "0 \<le> sockfd (s[this := (s ! this)\<lparr>sockfd := - 1\<rparr>] ! i)"
    with assms(1) inv [of i j]
    show "sockfd (s[this := (s ! this)\<lparr>sockfd := - 1\<rparr>] ! i) \<noteq>
          sockfd (s[this := (s ! this)\<lparr>sockfd := - 1\<rparr>] ! j)"
      by (auto simp: nth_list_update split: if_splits)
  qed
qed

text \<open>A move assignment of an object to itself changes nothing.\<close>

lemma move_assign_self: "move_assign this this s w = (s, w)"
  by (simp add: move_assign_def)

text \<open>
  C9. In a store where no handle has two owners, take two different objects \<open>this\<close>
  and \<open>other\<close>. After \<open>this = std::move(other)\<close> the source \<open>other\<close> holds -1, its
  destructor makes no call (no \<^verbatim>\<open>close\<close>), and \<open>this\<close> holds the handle \<open>other\<close> had;
  if \<open>this\<close> held a live handle before, the move closed it, and this \<^verbatim>\<open>close\<close> is the
  only call made. After the move construction of a new object from \<open>other\<close> the same
  holds of \<open>other\<close> and of the new object, and no call was made. After either move no
  handle has two owners.
\<close>

theorem move_ownership:
  assumes "this < length s" and "other < length s" and "this \<noteq> other"
    and "sole_owners s"
  shows "sockfd (fst (move_assign this other s w) ! other) = - 1 \<and>
     destroy other (fst (move_assign this other s w)) (snd (move_assign this other s w)) =
       move_assign this other s w \<and>
     sockfd (fst (move_assign this other s w) ! this) = sockfd (s ! other) \<and>
     calls (snd (move_assign this other s w)) =
       calls w @ (if 0 \<le> sockfd (s ! this) then [Close (sockfd (s ! this))] else []) \<and>
     sole_owners (fst (move_assign this other s w)) \<and>
     sockfd (fst (move_construct other s w) ! other) = - 1 \<and>
     destroy other (fst (move_construct other s w)) (snd (move_construct other s w)) =
       move_construct other s w \<and>
     sockfd (fst (move_construct other s w) ! length s) = sockfd (s ! other) \<and>
     snd (move_construct other s w) = w \<and>
     sole_owners (fst (move_construct other s w))"
proof -
  let ?a = "move_assign this other s w"
  let ?c = "move_construct other s w"
  from assms(1-3) have a_other: "sockfd (fst ?a ! other) = - 1"
    by (simp add: move_assign_store)
  from assms(1-3) have a_this: "sockfd (fst ?a ! this) = sockfd (s ! other)"
    by (simp add: move_assign_store)
  from assms(2,3) have "other < length (fst ?a)"
    by (simp add: move_assign_store)
  with a_other have a_destroy: "destroy other (fst ?a) (snd ?a) = ?a"
    by (simp add: destroy_closed)
  from assms have "0 \<le> sockfd (s ! this) \<Longrightarrow> sockfd (s ! this) \<noteq> sockfd (s ! other)"
    by (simp add: sole_owners_iff)
  then have a_calls: "calls (snd ?a) =
      calls w @ (if 0 \<le> sockfd (s ! this) then [Close (sockfd (s ! this))] else [])"
    using assms(3) by (auto simp: move_assign_calls)
  from assms(2) have c_other: "sockfd (fst ?c ! other) = - 1"
    by (simp add: move_construct_store nth_append)
  from assms(2) have "other < length (fst ?c)"
    by (simp add: move_construct_store)
  with c_other have c_destroy: "destroy other (fst ?c) (snd ?c) = ?c"
    by (simp add: destroy_closed)
  have c_new: "sockfd (fst ?c ! length s) = sockfd (s ! other)"
    by (simp add: move_construct_store nth_append)
  have c_calls: "snd ?c = w"
    by (simp add: move_construct_store)
  from a_other a_destroy a_this a_calls c_other c_destroy c_new c_calls
    move_assign_sole_owners [OF assms] move_construct_sole_owners [OF assms(2,4)]
  show ?thesis by blast
qed

theorem move_ownership_witness:
  "(0::nat) < length [Connection 3, Connection 4] \<and>
   (1::nat) < length [Connection 3, Connection 4] \<and> (0::nat) \<noteq> 1 \<and>
   sole_owners [Connection 3, Connection 4] \<and>
   move_assign 0 1 [Connection 3, Connection 4] \<lparr>inbound = [], calls = []\<rparr> =
     ([Connection 4, Connection (- 1)], \<lparr>inbound = [], calls = [Close 3]\<rparr>) \<and>
   destroy 1 [Connection 4, Connection (- 1)] \<lparr>inbound = [], calls = [Close 3]\<rparr> =
     ([Connection 4, Connection (- 1)], \<lparr>inbound = [], calls = [Close 3]\<rparr>) \<and>
   sole_owners [Connection 4, Connection (- 1)] \<and>
   move_construct 1 [Connection 3, Connection 4] \<lparr>inbound = [], calls = []\<rparr> =
     ([Connection 3, Connection (- 1), Connection 4], \<lparr>inbound = [], calls = []\<rparr>) \<and>
   sole_owners [Connection 3, Connection (- 1), Connection 4]"
proof -
  have h1: "(0::nat) < length [Connection 3, Connection 4]" by simp
  have h2: "(1::nat) < length [Connection 3, Connection 4]" by simp
  have h3: "(0::nat) \<noteq> 1" by simp
  have h4: "sole_owners [Connection 3, Connection 4]"
    by (simp add: sole_owners_def live_handles_def Connection_def default_connection_def)
  have a: "move_assign 0 1 [Connection 3, Connection 4] \<lparr>inbound = [], calls = []\<rparr> =
     ([Connection 4, Connection (- 1)], \<lparr>inbound = [], calls = [Close 3]\<rparr>)"
    by (simp add: move_assign_def closeSockfd_def record_call_def Connection_def
        default_connection_def)
  have c: "move_construct 1 [Connection 3, Connection 4] \<lparr>inbound = [], calls = []\<rparr> =
     ([Connection 3, Connection (- 1), Connection 4], \<lparr>inbound = [], calls = []\<rparr>)"
    by (simp add: move_construct_def Connection_def default_connection_def)
  from h1 h2 h3 h4 a c
    move_ownership [OF h1 h2 h3 h4, of "\<lparr>inbound = [], calls = []\<rparr>"]
  show ?thesis by (simp add: Connection_def default_connection_def)
qed

end
